theory Spec2Isabelle
  imports Complex_Main
begin

section \<open>Python values handled by the module\<close>

text \<open>
  The module \<^verbatim>\<open>document_processor/docling_processor.py\<close> moves dynamically typed values
  around: attributes read off objects of the conversion library, dictionaries typed
  \<^verbatim>\<open>Dict[str, Any]\<close>, arguments of \<^verbatim>\<open>json.dump\<close>. They are modelled by one datatype.
  \<^item> \<open>PList\<close> stands for lists and tuples (the code and \<^verbatim>\<open>json\<close> treat them alike);
  \<^item> \<open>PDict\<close> is a dictionary in insertion order, with arbitrary (hashable) keys;
  \<^item> \<open>PFloat\<close> carries the value of a finite float (NaN and the infinities are not
    represented);
  \<^item> \<open>PObj cls attrs items\<close> is any other object: its class name, its \<^verbatim>\<open>__dict__\<close> when it
    has one, and the sequence its \<^verbatim>\<open>__iter__\<close> yields when it is iterable.
  Values are finite trees, hence acyclic.
\<close>

datatype pyval =
    PNone
  | PBool bool
  | PInt int
  | PFloat rat
  | PStr string
  | PBytes string
  | PList "pyval list"
  | PDict "(pyval \<times> pyval) list"
  | PObj string "(string \<times> pyval) list option" "pyval list option"

type_synonym pydict = "(string \<times> pyval) list"

text \<open>The exceptions the module raises or lets through. \<open>External\<close> is an exception
  raised inside the conversion library, named by its message.\<close>

datatype error =
    FileNotFoundError string
  | ValueError string
  | TypeError string
  | AttributeError string
  | OSError string
  | RecursionError
  | External string

subsection \<open>Strings\<close>

definition digit_char :: "nat \<Rightarrow> char" where
  "digit_char d = ''0123456789'' ! d"

fun string_of_nat :: "nat \<Rightarrow> string" where
  "string_of_nat n =
     (if n < 10 then [digit_char n] else string_of_nat (n div 10) @ [digit_char (n mod 10)])"

declare string_of_nat.simps [simp del]

definition string_of_int :: "int \<Rightarrow> string" where
  "string_of_int i = (if i < 0 then CHR ''-'' # string_of_nat (nat (- i)) else string_of_nat (nat i))"


text \<open>\<^verbatim>\<open>str(v)\<close> and \<^verbatim>\<open>f"{v}"\<close>. The renderings of floats, bytes, containers and objects
  are left to the parameter \<open>repr\<close>.\<close>

definition py_str :: "(pyval \<Rightarrow> string) \<Rightarrow> pyval \<Rightarrow> string" where
  "py_str repr v =
     (case v of
        PStr s \<Rightarrow> s
      | PInt i \<Rightarrow> string_of_int i
      | PBool b \<Rightarrow> (if b then ''True'' else ''False'')
      | PNone \<Rightarrow> ''None''
      | _ \<Rightarrow> repr v)"



fun dict_set :: "('k \<times> 'v) list \<Rightarrow> 'k \<Rightarrow> 'v \<Rightarrow> ('k \<times> 'v) list" where
  "dict_set [] k v = [(k, v)]"
| "dict_set ((k', v') # kvs) k v =
     (if k' = k then (k', v) # kvs else (k', v') # dict_set kvs k v)"

definition as_pydict :: "pydict \<Rightarrow> pyval" where
  "as_pydict d = PDict (map (\<lambda>(k, v). (PStr k, v)) d)"

section \<open>The json encoder\<close>

text \<open>
  \<^verbatim>\<open>json.dump\<close>/\<^verbatim>\<open>json.dumps\<close> of the standard library, up to the rendering as text: the
  result is the JSON tree that is written, with the keys of an object kept as the
  primitive they are rendered from. Lists, tuples and dictionaries are walked by the
  encoder itself; a dictionary key that is not a str, int, float, bool or None raises
  TypeError without consulting \<open>default\<close>; any other value is passed to \<open>default\<close> and
  the value it returns is encoded in turn. \<open>n\<close> bounds the nesting of \<open>default\<close>
  calls, as the interpreter's recursion limit does.
\<close>

datatype json =
    JNull
  | JBool bool
  | JInt int
  | JFloat rat
  | JStr string
  | JArr "json list"
  | JObj "(json \<times> json) list"

fun collect :: "('e + 'a) list \<Rightarrow> 'e + 'a list" where
  "collect [] = Inr []"
| "collect (x # xs) =
     (case x of
        Inl e \<Rightarrow> Inl e
      | Inr a \<Rightarrow> (case collect xs of Inl e \<Rightarrow> Inl e | Inr as \<Rightarrow> Inr (a # as)))"

fun json_key :: "pyval \<Rightarrow> json option" where
  "json_key (PStr s) = Some (JStr s)"
| "json_key (PInt i) = Some (JInt i)"
| "json_key (PFloat q) = Some (JFloat q)"
| "json_key (PBool b) = Some (JBool b)"
| "json_key PNone = Some JNull"
| "json_key _ = None"

fun json_encode :: "(pyval \<Rightarrow> error + pyval) \<Rightarrow> nat \<Rightarrow> pyval \<Rightarrow> error + json" where
  "json_encode d n PNone = Inr JNull"
| "json_encode d n (PBool b) = Inr (JBool b)"
| "json_encode d n (PInt i) = Inr (JInt i)"
| "json_encode d n (PFloat q) = Inr (JFloat q)"
| "json_encode d n (PStr s) = Inr (JStr s)"
| "json_encode d n (PList xs) =
     (case collect (map (json_encode d n) xs) of
        Inl e \<Rightarrow> Inl e
      | Inr js \<Rightarrow> Inr (JArr js))"
| "json_encode d n (PDict kvs) =
     (case collect (map (\<lambda>(k, v).
             case json_key k of
               None \<Rightarrow> Inl (TypeError ''keys must be str, int, float, bool or None'')
             | Some jk \<Rightarrow>
                 (case json_encode d n v of Inl e \<Rightarrow> Inl e | Inr jv \<Rightarrow> Inr (jk, jv))) kvs) of
        Inl e \<Rightarrow> Inl e
      | Inr js \<Rightarrow> Inr (JObj js))"
| "json_encode d n (PBytes b) =
     (case d (PBytes b) of
        Inl e \<Rightarrow> Inl e
      | Inr v \<Rightarrow> (case n of 0 \<Rightarrow> Inl RecursionError | Suc m \<Rightarrow> json_encode d m v))"
| "json_encode d n (PObj c a it) =
     (case d (PObj c a it) of
        Inl e \<Rightarrow> Inl e
      | Inr v \<Rightarrow> (case n of 0 \<Rightarrow> Inl RecursionError | Suc m \<Rightarrow> json_encode d m v))"

text \<open>\<^verbatim>\<open>json.dumps(value)\<close> without \<open>default\<close>: the built-in default raises TypeError.\<close>

definition json_dumps :: "pyval \<Rightarrow> error + json" where
  "json_dumps v = json_encode (\<lambda>x. Inl (TypeError ''Object is not JSON serializable'')) 0 v"

definition recursion_limit :: nat where
  "recursion_limit = 1000"

section \<open>safe_serialize_tabledata\<close>

fun startswith_underscore :: "string \<Rightarrow> bool" where
  "startswith_underscore [] = False"
| "startswith_underscore (c # cs) = (c = CHR ''_'')"

text \<open>
  The three branches of the source, in its order: an object with a \<^verbatim>\<open>__dict__\<close>; an
  iterable that is neither str nor bytes (iterating a dictionary yields its keys); anything
  else. \<open>str\<close> is Python's \<^verbatim>\<open>str\<close>.
\<close>

fun safe_serialize_tabledata :: "(pyval \<Rightarrow> string) \<Rightarrow> pyval \<Rightarrow> pyval" where
  "safe_serialize_tabledata str (PObj cls (Some attrs) it) =
     PDict (foldl (\<lambda>result (key, value).
         if startswith_underscore key then result
         else dict_set result (PStr key)
           (case json_dumps value of
              Inr _ \<Rightarrow> value
            | Inl _ \<Rightarrow>
               (case value of
                  PObj c (Some a) it' \<Rightarrow> safe_serialize_tabledata str value
                | PObj c None (Some xs) \<Rightarrow> PList (map (safe_serialize_tabledata str) xs)
                | PList xs \<Rightarrow> PList (map (safe_serialize_tabledata str) xs)
                | PDict kvs \<Rightarrow> PList (map (\<lambda>(k, v). safe_serialize_tabledata str k) kvs)
                | _ \<Rightarrow> PStr (str value))))
       [(PStr ''_type'', PStr cls)] attrs)"
| "safe_serialize_tabledata str (PObj cls None (Some xs)) =
     PList (map (safe_serialize_tabledata str) xs)"
| "safe_serialize_tabledata str (PList xs) = PList (map (safe_serialize_tabledata str) xs)"
| "safe_serialize_tabledata str (PDict kvs) =
     PList (map (\<lambda>(k, v). safe_serialize_tabledata str k) kvs)"
| "safe_serialize_tabledata str v =
     (case json_dumps v of Inr _ \<Rightarrow> v | Inl _ \<Rightarrow> PStr (str v))"

text \<open>\<^verbatim>\<open>json.dump(obj, f, ensure_ascii=False, indent=2, default=safe_serialize_tabledata)\<close>.\<close>

definition json_dump_safe :: "(pyval \<Rightarrow> string) \<Rightarrow> pyval \<Rightarrow> error + json" where
  "json_dump_safe str v = json_encode (\<lambda>x. Inr (safe_serialize_tabledata str x)) recursion_limit v"



section \<open>Paths\<close>

text \<open>
  The three \<^verbatim>\<open>pathlib\<close> operations the module uses, on POSIX paths written as strings:
  \<^verbatim>\<open>Path(p).stem\<close>, \<^verbatim>\<open>Path(p).suffix\<close> and \<^verbatim>\<open>str(Path(d) / name)\<close> for a plain file name.
  Empty and \<^verbatim>\<open>.\<close> components are dropped, as \<^verbatim>\<open>pathlib\<close> does (its special case of
  exactly two leading slashes is not represented).
\<close>

fun split_on :: "char \<Rightarrow> string \<Rightarrow> string list" where
  "split_on c [] = [[]]"
| "split_on c (x # xs) =
     (if x = c then [] # split_on c xs
      else (case split_on c xs of [] \<Rightarrow> [[x]] | w # ws \<Rightarrow> (x # w) # ws))"

definition path_parts :: "string \<Rightarrow> string list" where
  "path_parts p = filter (\<lambda>s. s \<noteq> [] \<and> s \<noteq> ''.'') (split_on CHR ''/'' p)"

definition is_absolute :: "string \<Rightarrow> bool" where
  "is_absolute p = (case p of [] \<Rightarrow> False | c # cs \<Rightarrow> c = CHR ''/'')"

definition path_name :: "string \<Rightarrow> string" where
  "path_name p = (case path_parts p of [] \<Rightarrow> [] | x # xs \<Rightarrow> last (x # xs))"

definition rfind :: "char \<Rightarrow> string \<Rightarrow> nat option" where
  "rfind c s =
     (case filter (\<lambda>i. s ! i = c) (rev [0..<length s]) of [] \<Rightarrow> None | i # js \<Rightarrow> Some i)"

definition path_suffix :: "string \<Rightarrow> string" where
  "path_suffix p =
     (let name = path_name p
      in case rfind CHR ''.'' name of
           None \<Rightarrow> []
         | Some i \<Rightarrow> (if 0 < i \<and> i < length name - 1 then drop i name else []))"

definition path_stem :: "string \<Rightarrow> string" where
  "path_stem p =
     (let name = path_name p
      in case rfind CHR ''.'' name of
           None \<Rightarrow> name
         | Some i \<Rightarrow> (if 0 < i \<and> i < length name - 1 then take i name else name))"

definition path_join :: "string \<Rightarrow> string \<Rightarrow> string" where
  "path_join d name =
     (if is_absolute d then ''/'' else []) @ concat (map (\<lambda>c. c @ ''/'') (path_parts d)) @ name"

section \<open>The conversion library's objects\<close>

text \<open>
  The document returned by \<^verbatim>\<open>converter.convert(file_path).document\<close>. The module probes it
  with \<^verbatim>\<open>hasattr\<close>/\<^verbatim>\<open>getattr\<close>, so every attribute is optional (\<open>None\<close>: the object has no
  such attribute). Attributes that end up in \<^verbatim>\<open>str\<close>-typed fields of the result are
  strings, the collections the module enumerates are lists, and everything that is only
  stored in a \<^verbatim>\<open>Dict[str, Any]\<close> is an arbitrary value. \<open>d_markdown\<close> is the outcome of
  \<^verbatim>\<open>export_to_markdown()\<close>: the text, or the message of the exception it raises.
  \<open>t_str\<close> is \<^verbatim>\<open>str(table)\<close>.
\<close>

record section_obj =
  s_title :: "pyval option"
  s_text :: "pyval option"
  s_level :: "pyval option"
  s_page :: "pyval option"

record table_obj =
  t_page :: "pyval option"
  t_bbox :: "pyval option"
  t_data :: "pyval option"
  t_rows :: "pyval option"
  t_columns :: "pyval option"
  t_str :: string

record image_obj =
  i_page :: "pyval option"
  i_bbox :: "pyval option"
  i_format :: "pyval option"
  i_data :: "pyval option"

record docling_document =
  d_title :: "string option"
  d_text :: "string option"
  d_pages :: "pyval list option"
  d_sections :: "section_obj list option"
  d_tables :: "table_obj list option"
  d_images :: "image_obj list option"
  d_markdown :: "string + string"

definition getattr :: "'a option \<Rightarrow> 'a \<Rightarrow> 'a" where
  "getattr attr dflt = (case attr of None \<Rightarrow> dflt | Some v \<Rightarrow> v)"

text \<open>\<^verbatim>\<open>a or b\<close> on strings.\<close>

definition or_else :: "string \<Rightarrow> string \<Rightarrow> string" where
  "or_else a b = (if a \<noteq> [] then a else b)"

section \<open>Configuration, result and processor\<close>

text \<open>Of \<^verbatim>\<open>DoclingConfig\<close>, the fields the processor's methods read.\<close>

record DoclingConfig =
  cache_dir :: string
  temp_dir :: string
  extract_tables :: bool
  extract_images :: bool
  max_file_size_mb :: int

record DocumentStructure =
  title :: string
  authors :: "string list"
  sections :: "pydict list"
  tables :: "pydict list"
  images :: "pydict list"
  formulas :: "pydict list"
  metadata :: pydict
  raw_text :: string
  markdown_content :: string
  processing_stats :: pydict

text \<open>A \<^verbatim>\<open>DocumentConverter\<close> is identified by the pipeline options it was built with.\<close>

record pipeline_options =
  do_ocr :: bool
  do_table_structure :: bool
  generate_page_images :: bool

record DoclingProcessor =
  config :: DoclingConfig
  converter :: "pipeline_options option"
  chunker :: bool
  ocr_initialized :: bool

section \<open>The world outside the processor\<close>

text \<open>
  \<open>files\<close> holds what the module has written; \<open>ctor_log\<close> lists the calls of the
  \<^verbatim>\<open>DocumentConverter\<close> constructor and \<open>convert_log\<close> the calls of \<^verbatim>\<open>convert\<close>, in order
  (what a mock of the library would record). Log messages are not represented.
\<close>

datatype file_content = Text string | Json json | Partial

record world =
  files :: "string \<Rightarrow> file_content option"
  ctor_log :: "pipeline_options list"
  convert_log :: "(string \<times> pipeline_options) list"

text \<open>
  What the operating system, the clock and the library answer during one call. An
  outcome \<open>Some msg\<close> (or \<open>Inl msg\<close>) means that the operation raises.
\<close>

record environment =
  path_exists :: "string \<Rightarrow> bool"
  path_getsize :: "string \<Rightarrow> nat"
  mkdir_outcome :: "string \<Rightarrow> string option"
  open_outcome :: "string \<Rightarrow> string option"
  ctor_outcome :: "pipeline_options \<Rightarrow> string option"
  convert_outcome :: "pipeline_options \<Rightarrow> string \<Rightarrow> string + docling_document"
  chunk_outcome :: "string + nat"
  transformers_available :: bool
  chunker_ctor_outcome :: "string option"
  elapsed_seconds :: rat
  timestamp :: string
  repr :: "pyval \<Rightarrow> string"

section \<open>Converter initialisation\<close>

definition base_pipeline_options :: "DoclingConfig \<Rightarrow> pipeline_options" where
  "base_pipeline_options cfg =
     \<lparr>do_ocr = False, do_table_structure = extract_tables cfg,
      generate_page_images = extract_images cfg\<rparr>"

definition ocr_pipeline_options :: "DoclingConfig \<Rightarrow> pipeline_options" where
  "ocr_pipeline_options cfg =
     \<lparr>do_ocr = True, do_table_structure = extract_tables cfg,
      generate_page_images = extract_images cfg\<rparr>"

definition initialize_base_converter ::
  "environment \<Rightarrow> DoclingProcessor \<Rightarrow> world \<Rightarrow> (error + unit) \<times> DoclingProcessor \<times> world" where
  "initialize_base_converter env self w =
     (let opts = base_pipeline_options (config self);
          w' = w\<lparr>ctor_log := ctor_log w @ [opts]\<rparr>
      in case ctor_outcome env opts of
           Some msg \<Rightarrow> (Inl (External msg), self, w')
         | None \<Rightarrow> (Inr (), self\<lparr>converter := Some opts\<rparr>, w'))"

definition initialize_ocr_converter ::
  "environment \<Rightarrow> DoclingProcessor \<Rightarrow> world \<Rightarrow> (error + unit) \<times> DoclingProcessor \<times> world" where
  "initialize_ocr_converter env self w =
     (let opts = ocr_pipeline_options (config self);
          w' = w\<lparr>ctor_log := ctor_log w @ [opts]\<rparr>
      in case ctor_outcome env opts of
           None \<Rightarrow> (Inr (), self\<lparr>converter := Some opts, ocr_initialized := True\<rparr>, w')
         | Some msg \<Rightarrow>
             (case initialize_base_converter env self w' of
                (Inl e, self', w'') \<Rightarrow> (Inl e, self', w'')
              | (Inr u, self', w'') \<Rightarrow> (Inl (External msg), self', w'')))"

definition initialize_chunker :: "environment \<Rightarrow> DoclingProcessor \<Rightarrow> DoclingProcessor" where
  "initialize_chunker env self =
     (if \<not> transformers_available env then self
      else case chunker_ctor_outcome env of
             None \<Rightarrow> self\<lparr>chunker := True\<rparr>
           | Some msg \<Rightarrow> self\<lparr>chunker := False\<rparr>)"

text \<open>The constructor \<^verbatim>\<open>DoclingProcessor(config)\<close>: no processor exists if it raises.\<close>

definition new_processor ::
  "environment \<Rightarrow> DoclingConfig \<Rightarrow> world \<Rightarrow> (error + DoclingProcessor) \<times> world" where
  "new_processor env cfg w =
     (case mkdir_outcome env (cache_dir cfg) of
        Some msg \<Rightarrow> (Inl (OSError msg), w)
      | None \<Rightarrow>
         (case mkdir_outcome env (temp_dir cfg) of
            Some msg \<Rightarrow> (Inl (OSError msg), w)
          | None \<Rightarrow>
             (case initialize_base_converter env
                     \<lparr>config = cfg, converter = None, chunker = False, ocr_initialized = False\<rparr> w of
                (Inl e, self, w') \<Rightarrow> (Inl e, w')
              | (Inr u, self, w') \<Rightarrow> (Inr self, w'))))"

section \<open>Extraction of the document structure\<close>

definition section_record :: "nat \<Rightarrow> section_obj \<Rightarrow> pydict" where
  "section_record i section =
     [(''id'', PInt (int i)),
      (''title'', getattr (s_title section) (PStr (''Section '' @ string_of_nat (i + 1)))),
      (''content'', getattr (s_text section) (PStr [])),
      (''level'', getattr (s_level section) (PInt 1)),
      (''page'', getattr (s_page section) (PInt 1))]"

text \<open>\<^verbatim>\<open>_extract_table_content\<close>. Attribute reads do not raise in this model, so the
  handler that returns an \<^verbatim>\<open>"error"\<close> entry is never entered.\<close>

definition extract_table_content :: "table_obj \<Rightarrow> pydict" where
  "extract_table_content table =
     (case t_data table of
        Some data \<Rightarrow>
          [(''type'', PStr ''table''),
           (''data'', data),
           (''rows'', getattr (t_rows table) (PInt 0)),
           (''columns'', getattr (t_columns table) (PInt 0))]
      | None \<Rightarrow>
          [(''type'', PStr ''table''),
           (''content'', PStr (t_str table)),
           (''extracted_method'', PStr ''string_representation'')])"

definition table_record :: "nat \<Rightarrow> table_obj \<Rightarrow> pydict" where
  "table_record i table =
     [(''id'', PInt (int i)),
      (''page'', getattr (t_page table) (PInt 1)),
      (''content'', as_pydict (extract_table_content table)),
      (''bbox'', getattr (t_bbox table) PNone)]"

definition table_file :: "string \<Rightarrow> nat \<Rightarrow> string" where
  "table_file output_dir i = path_join output_dir (''table_'' @ string_of_nat i @ ''.json'')"

definition image_file :: "string \<Rightarrow> nat \<Rightarrow> string" where
  "image_file output_dir i = path_join output_dir (''image_'' @ string_of_nat i @ ''.png'')"

text \<open>
  The loop over \<^verbatim>\<open>enumerate(docling_document.tables)\<close>: each table record is dumped to
  its own file, then gets its \<^verbatim>\<open>file_path\<close> entry and is appended to the result. Opening
  the file may raise; when \<^verbatim>\<open>json.dump\<close> raises, the file has been opened and holds an
  incomplete dump.
\<close>

fun save_tables ::
  "environment \<Rightarrow> string \<Rightarrow> (nat \<times> table_obj) list \<Rightarrow> world \<Rightarrow> (error + pydict list) \<times> world" where
  "save_tables env output_dir [] w = (Inr [], w)"
| "save_tables env output_dir ((i, table) # rest) w =
     (let table_data = table_record i table
      in case open_outcome env (table_file output_dir i) of
           Some msg \<Rightarrow> (Inl (OSError msg), w)
         | None \<Rightarrow>
            (case json_dump_safe (py_str (repr env)) (as_pydict table_data) of
               Inl e \<Rightarrow> (Inl e, w\<lparr>files := (files w)(table_file output_dir i \<mapsto> Partial)\<rparr>)
             | Inr j \<Rightarrow>
                (case save_tables env output_dir rest
                        (w\<lparr>files := (files w)(table_file output_dir i \<mapsto> Json j)\<rparr>) of
                   (Inl e, w1) \<Rightarrow> (Inl e, w1)
                 | (Inr tds, w1) \<Rightarrow>
                     (Inr (dict_set table_data ''file_path'' (PStr (table_file output_dir i)) # tds),
                      w1))))"

text \<open>The image loop writes nothing: where the source would save the image it only
  has a comment, and the path is recorded when the image has a \<^verbatim>\<open>data\<close> attribute.\<close>

definition image_record :: "string \<Rightarrow> nat \<Rightarrow> image_obj \<Rightarrow> pydict" where
  "image_record output_dir i img =
     (let image_data =
            [(''id'', PInt (int i)),
             (''page'', getattr (i_page img) (PInt 1)),
             (''bbox'', getattr (i_bbox img) PNone),
             (''format'', getattr (i_format img) (PStr ''unknown''))]
      in case i_data img of
           Some data \<Rightarrow> dict_set image_data ''file_path'' (PStr (image_file output_dir i))
         | None \<Rightarrow> image_data)"

definition extract_document_structure ::
  "environment \<Rightarrow> DoclingProcessor \<Rightarrow> docling_document \<Rightarrow> string \<Rightarrow> string \<Rightarrow> world
   \<Rightarrow> (error + DocumentStructure) \<times> world" where
  "extract_document_structure env self docling_document original_file_path output_dir w =
     (let doc_title = or_else (getattr (d_title docling_document) []) (path_stem original_file_path)
      in case d_markdown docling_document of
           Inl msg \<Rightarrow> (Inl (External msg), w)
         | Inr markdown \<Rightarrow>
            (let text = or_else (getattr (d_text docling_document) []) markdown;
                 total_pages = (case d_pages docling_document of
                                  Some ps \<Rightarrow> int (length ps)
                                | None \<Rightarrow> 1);
                 secs = map (\<lambda>(i, section). section_record i section)
                          (enumerate 0 (getattr (d_sections docling_document) []))
             in case save_tables env output_dir
                       (enumerate 0 (getattr (d_tables docling_document) [])) w of
                  (Inl e, w1) \<Rightarrow> (Inl e, w1)
                | (Inr tabs, w1) \<Rightarrow>
                   (let imgs = map (\<lambda>(i, img). image_record output_dir i img)
                                 (enumerate 0 (getattr (d_images docling_document) []));
                        chunks_count =
                          (if chunker self \<and> markdown \<noteq> []
                           then (case chunk_outcome env of Inr n \<Rightarrow> n | Inl msg \<Rightarrow> 0)
                           else 0)
                    in (Inr \<lparr>title = doc_title,
                             authors = [],
                             sections = secs,
                             tables = tabs,
                             images = imgs,
                             formulas = [],
                             metadata =
                               [(''original_file'', PStr original_file_path),
                                (''total_pages'', PInt total_pages),
                                (''sections_count'', PInt (int (length secs))),
                                (''tables_count'', PInt (int (length tabs))),
                                (''images_count'', PInt (int (length imgs))),
                                (''chunks_count'', PInt (int chunks_count)),
                                (''has_ocr_content'', PBool (ocr_initialized self)),
                                (''extraction_method'', PStr ''docling_v2''),
                                (''content_length'', PInt (int (length text)))],
                             raw_text = text,
                             markdown_content = markdown,
                             processing_stats = []\<rparr>, w1))))"

section \<open>process_document\<close>

text \<open>
  The result is the returned structure or the exception raised, together with the
  processor and the world as the call leaves them: what was mutated before an exception
  stays mutated. The outer handler logs and re-raises, which changes nothing here.
\<close>

definition process_document ::
  "environment \<Rightarrow> DoclingProcessor \<Rightarrow> world \<Rightarrow> string \<Rightarrow> string \<Rightarrow> bool \<Rightarrow> string
   \<Rightarrow> (error + DocumentStructure) \<times> DoclingProcessor \<times> world" where
  "process_document env self w file_path output_dir use_ocr ocr_languages =
     (if \<not> path_exists env file_path
      then (Inl (FileNotFoundError (''File not found: '' @ file_path)), self, w)
      else
        let file_size = path_getsize env file_path;
            max_size = max_file_size_mb (config self) * 1024 * 1024
        in if int file_size > max_size
           then (Inl (ValueError (''File too large: '' @ string_of_nat file_size
                                   @ '' bytes (max: '' @ string_of_int max_size @ '')'')), self, w)
           else
             case (if use_ocr \<and> \<not> ocr_initialized self then initialize_ocr_converter env self w
                   else if \<not> use_ocr \<and> ocr_initialized self then initialize_base_converter env self w
                   else (Inr (), self, w)) of
               (Inl e, self1, w1) \<Rightarrow> (Inl e, self1, w1)
             | (Inr u, self1, w1) \<Rightarrow>
                (case converter self1 of
                   None \<Rightarrow> (Inl (AttributeError ''convert''), self1, w1)
                 | Some c \<Rightarrow>
                    (let w2 = w1\<lparr>convert_log := convert_log w1 @ [(file_path, c)]\<rparr>
                     in case convert_outcome env c file_path of
                          Inl msg \<Rightarrow> (Inl (External msg), self1, w2)
                        | Inr docling_document \<Rightarrow>
                           (case extract_document_structure env self1 docling_document
                                   file_path output_dir w2 of
                              (Inl e, w3) \<Rightarrow> (Inl e, self1, w3)
                            | (Inr document_structure, w3) \<Rightarrow>
                               (Inr (document_structure\<lparr>processing_stats :=
                                      [(''processing_time_seconds'', PFloat (elapsed_seconds env)),
                                       (''file_size_bytes'', PInt (int file_size)),
                                       (''ocr_used'', PBool use_ocr),
                                       (''ocr_languages'',
                                          if use_ocr then PStr ocr_languages else PNone),
                                       (''docling_version'', PStr ''2.0+''),
                                       (''timestamp'', PStr (timestamp env))]\<rparr>),
                                self1, w3)))))"

text \<open>A run of consecutive calls on one processor: each call has its own arguments
  \<open>(file_path, output_dir, use_ocr, ocr_languages)\<close>; the results are kept in order.\<close>

fun process_documents ::
  "environment \<Rightarrow> DoclingProcessor \<Rightarrow> world \<Rightarrow> (string \<times> string \<times> bool \<times> string) list
   \<Rightarrow> (error + DocumentStructure) list \<times> DoclingProcessor \<times> world" where
  "process_documents env self w [] = ([], self, w)"
| "process_documents env self w ((file_path, output_dir, use_ocr, ocr_languages) # calls) =
     (case process_document env self w file_path output_dir use_ocr ocr_languages of
        (r, self1, w1) \<Rightarrow>
          (case process_documents env self1 w1 calls of
             (rs, self2, w2) \<Rightarrow> (r # rs, self2, w2)))"

section \<open>Markdown export\<close>







section \<open>cleanup_temp_files\<close>

text \<open>
  The directories the cleanup sees: a directory path is mapped to its entries in the
  order \<^verbatim>\<open>glob("*")\<close> yields them (\<open>None\<close>: the path does not exist). \<^verbatim>\<open>unlink\<close> raises on
  a subdirectory and on an entry the process may not remove.
\<close>

record dir_entry =
  e_name :: string
  e_is_dir :: bool
  e_protected :: bool
  e_content :: string

definition keeps :: "string \<Rightarrow> bool \<Rightarrow> dir_entry \<Rightarrow> bool" where
  "keeps output_dir keep_main_files e =
     (keep_main_files \<and> path_suffix (path_join output_dir (e_name e)) \<in> set [''.md'', ''.json''])"

definition unlink_fails :: "dir_entry \<Rightarrow> bool" where
  "unlink_fails e = (e_is_dir e \<or> e_protected e)"

text \<open>The loop body of the \<^verbatim>\<open>try\<close> block: the exception of a failing \<^verbatim>\<open>unlink\<close> ends the
  loop. The result is the exception, if any, and the entries left in the directory.\<close>

fun unlink_loop :: "string \<Rightarrow> bool \<Rightarrow> dir_entry list \<Rightarrow> error option \<times> dir_entry list" where
  "unlink_loop output_dir keep_main_files [] = (None, [])"
| "unlink_loop output_dir keep_main_files (e # es) =
     (if keeps output_dir keep_main_files e
      then (case unlink_loop output_dir keep_main_files es of (r, left) \<Rightarrow> (r, e # left))
      else if unlink_fails e then (Some (OSError (e_name e)), e # es)
      else unlink_loop output_dir keep_main_files es)"

text \<open>The method: \<open>raised\<close> is the exception that reaches the caller, \<open>warned\<close> the one
  the handler catches and logs as a warning.\<close>

record cleanup_result =
  raised :: "error option"
  warned :: "error option"
  dirs_after :: "string \<Rightarrow> dir_entry list option"

definition cleanup_temp_files ::
  "(string \<Rightarrow> dir_entry list option) \<Rightarrow> string \<Rightarrow> bool \<Rightarrow> cleanup_result" where
  "cleanup_temp_files dirs output_dir keep_main_files =
     (case dirs output_dir of
        None \<Rightarrow> \<lparr>raised = None, warned = None, dirs_after = dirs\<rparr>
      | Some entries \<Rightarrow>
         (case unlink_loop output_dir keep_main_files entries of
            (r, left) \<Rightarrow> \<lparr>raised = None, warned = r, dirs_after = dirs(output_dir \<mapsto> left)\<rparr>))"

section \<open>Sample inputs\<close>

text \<open>Concrete configurations, documents and environments on which the theorems below
  are instantiated.\<close>

definition sample_config :: DoclingConfig where
  "sample_config =
     \<lparr>cache_dir = ''/mnt/storage/models/docling'', temp_dir = ''/app/temp'',
      extract_tables = True, extract_images = True, max_file_size_mb = 500\<rparr>"

definition sample_processor :: DoclingProcessor where
  "sample_processor =
     \<lparr>config = sample_config, converter = Some (base_pipeline_options sample_config),
      chunker = False, ocr_initialized = False\<rparr>"

definition empty_world :: world where
  "empty_world = \<lparr>files = (\<lambda>p. None), ctor_log = [], convert_log = []\<rparr>"

definition sample_table :: table_obj where
  "sample_table =
     \<lparr>t_page = Some (PInt 2), t_bbox = None,
      t_data = Some (PObj ''TableData''
                 (Some [(''num_rows'', PInt 1), (''cells'', PList [PObj ''TableCell'' (Some [(''text'', PStr ''a'')]) None])])
                 None),
      t_rows = None, t_columns = None, t_str = ''table''\<rparr>"

definition sample_document :: docling_document where
  "sample_document =
     \<lparr>d_title = None, d_text = None, d_pages = Some [PNone, PNone],
      d_sections = Some [\<lparr>s_title = Some (PStr ''Intro''), s_text = None, s_level = None, s_page = None\<rparr>],
      d_tables = Some [sample_table],
      d_images = None,
      d_markdown = Inr ''# Report''\<rparr>"

definition sample_env :: environment where
  "sample_env =
     \<lparr>path_exists = (\<lambda>p. p = ''in/report.pdf''),
      path_getsize = (\<lambda>p. 2048),
      mkdir_outcome = (\<lambda>p. None),
      open_outcome = (\<lambda>p. None),
      ctor_outcome = (\<lambda>opts. None),
      convert_outcome = (\<lambda>opts p. Inr sample_document),
      chunk_outcome = Inr 0,
      transformers_available = False,
      chunker_ctor_outcome = None,
      elapsed_seconds = 3 / 2,
      timestamp = ''2025-01-01T00:00:00'',
      repr = (\<lambda>v. ''<object>'')\<rparr>"

definition env_with_document :: "docling_document \<Rightarrow> environment" where
  "env_with_document doc = sample_env\<lparr>convert_outcome := (\<lambda>opts p. Inr doc)\<rparr>"

text \<open>A converted document whose \<^verbatim>\<open>pages\<close> collection is empty, and one with two images,
  the first without and the second with a \<^verbatim>\<open>data\<close> attribute.\<close>

definition pageless_document :: docling_document where
  "pageless_document = sample_document\<lparr>d_pages := Some []\<rparr>"

definition picture_document :: docling_document where
  "picture_document =
     sample_document\<lparr>d_images := Some
       [\<lparr>i_page = Some (PInt 1), i_bbox = None, i_format = Some (PStr ''png''), i_data = None\<rparr>,
        \<lparr>i_page = Some (PInt 2), i_bbox = None, i_format = None, i_data = Some (PBytes ''89504e47'')\<rparr>]\<rparr>"



text \<open>An environment in which the OCR converter cannot be built.\<close>

definition no_ocr_env :: environment where
  "no_ocr_env =
     sample_env\<lparr>ctor_outcome := (\<lambda>opts. if do_ocr opts then Some ''OCR engine missing'' else None)\<rparr>"

text \<open>An environment in which neither converter can be built any more.\<close>

definition no_converter_env :: environment where
  "no_converter_env =
     sample_env\<lparr>ctor_outcome :=
       (\<lambda>opts. if do_ocr opts then Some ''OCR engine missing'' else Some ''base broken'')\<rparr>"

text \<open>Three consecutive calls on the same file that switch OCR on, off and on again.\<close>

definition toggle_calls :: "(string \<times> string \<times> bool \<times> string) list" where
  "toggle_calls =
     [(''in/report.pdf'', ''out'', True, ''eng''),
      (''in/report.pdf'', ''out'', False, ''eng''),
      (''in/report.pdf'', ''out'', True, ''eng'')]"




text \<open>An output directory that holds a subdirectory among its files, and one that holds
  regular files only.\<close>

definition file_entry :: "string \<Rightarrow> dir_entry" where
  "file_entry name = \<lparr>e_name = name, e_is_dir = False, e_protected = False, e_content = ''x''\<rparr>"

definition mixed_dirs :: "string \<Rightarrow> dir_entry list option" where
  "mixed_dirs =
     (\<lambda>p. None)(''out'' \<mapsto>
       [file_entry ''report.md'', file_entry ''cache.tmp'',
        \<lparr>e_name = ''pages'', e_is_dir = True, e_protected = False, e_content = []\<rparr>,
        file_entry ''scratch.tmp'', file_entry ''table_0.json''])"

definition plain_dirs :: "string \<Rightarrow> dir_entry list option" where
  "plain_dirs =
     (\<lambda>p. None)(''out'' \<mapsto>
       [file_entry ''report.md'', file_entry ''cache.tmp'', file_entry ''image_0.png'',
        file_entry ''table_0.json''])"

section \<open>Facts about the json encoder and safe_serialize_tabledata\<close>











section \<open>Facts about process_document\<close>

lemma string_of_nat_digit: "n < 10 \<Longrightarrow> string_of_nat n = [digit_char n]"
  by (simp add: string_of_nat.simps)

lemmas sample_defs =
  sample_env_def sample_processor_def sample_config_def empty_world_def
  sample_document_def sample_table_def

lemmas sample_defs2 = sample_defs env_with_document_def pageless_document_def picture_document_def

lemmas run_defs =
  process_document_def extract_document_structure_def Let_def getattr_def or_else_def
  base_pipeline_options_def ocr_pipeline_options_def initialize_base_converter_def
  initialize_ocr_converter_def json_dump_safe_def recursion_limit_def string_of_nat_digit
  digit_char_def table_file_def image_file_def path_join_def path_parts_def is_absolute_def
  path_stem_def path_name_def rfind_def as_pydict_def table_record_def section_record_def
  image_record_def extract_table_content_def json_dumps_def py_str_def enumerate_eq_zip

text \<open>A call that returns a structure has converted the file with the handle the
  processor holds afterwards, and the structure is the extracted one with the statistics
  block attached.\<close>

lemma process_document_Inr:
  assumes "process_document env self w file_path output_dir use_ocr ocr_languages = (Inr ds, self1, w1)"
  shows "\<exists>c doc w0 ds0.
           converter self1 = Some c \<and> convert_outcome env c file_path = Inr doc
         \<and> extract_document_structure env self1 doc file_path output_dir w0 = (Inr ds0, w1)
         \<and> ds = ds0\<lparr>processing_stats :=
                  [(''processing_time_seconds'', PFloat (elapsed_seconds env)),
                   (''file_size_bytes'', PInt (int (path_getsize env file_path))),
                   (''ocr_used'', PBool use_ocr),
                   (''ocr_languages'', if use_ocr then PStr ocr_languages else PNone),
                   (''docling_version'', PStr ''2.0+''),
                   (''timestamp'', PStr (timestamp env))]\<rparr>"
  using assms unfolding process_document_def Let_def
  by (auto split: if_splits sum.splits prod.splits option.splits)

lemma extract_document_structure_Inr:
  assumes "extract_document_structure env self doc file_path output_dir w = (Inr ds, w1)"
  shows "\<exists>md tabs.
           d_markdown doc = Inr md
         \<and> save_tables env output_dir (enumerate 0 (getattr (d_tables doc) [])) w = (Inr tabs, w1)
         \<and> tables ds = tabs
         \<and> sections ds = map (\<lambda>(i, section). section_record i section)
                            (enumerate 0 (getattr (d_sections doc) []))
         \<and> images ds = map (\<lambda>(i, img). image_record output_dir i img)
                            (enumerate 0 (getattr (d_images doc) []))
         \<and> raw_text ds = or_else (getattr (d_text doc) []) md
         \<and> markdown_content ds = md
         \<and> map_of (metadata ds) ''content_length'' = Some (PInt (int (length (raw_text ds))))
         \<and> map_of (metadata ds) ''sections_count'' = Some (PInt (int (length (sections ds))))
         \<and> map_of (metadata ds) ''tables_count'' = Some (PInt (int (length (tables ds))))
         \<and> map_of (metadata ds) ''images_count'' = Some (PInt (int (length (images ds))))
         \<and> map_of (metadata ds) ''total_pages'' =
              Some (PInt (case d_pages doc of Some ps \<Rightarrow> int (length ps) | None \<Rightarrow> 1))"
  using assms unfolding extract_document_structure_def Let_def
  by (auto split: sum.splits prod.splits)

lemma pair_of_fst: "fst r = a \<Longrightarrow> \<exists>b c. r = (a, b, c)"
  by (cases r) auto

lemma sample_run_ok:
  "\<not> isl (fst (process_document sample_env sample_processor empty_world ''in/report.pdf'' ''out'' False ''eng''))"
  by (simp add: sample_defs run_defs)

section \<open>Switching the converter between calls\<close>

lemma ocr_initialized_never_reset:
  "ocr_initialized self
   \<Longrightarrow> ocr_initialized (fst (snd (process_document env self w file_path output_dir use_ocr ocr_languages)))"
  unfolding process_document_def initialize_base_converter_def Let_def
  by (auto split: sum.splits prod.splits option.splits)

lemma new_processor_sample:
  "new_processor sample_env sample_config empty_world =
     (Inr sample_processor, empty_world\<lparr>ctor_log := [base_pipeline_options sample_config]\<rparr>)"
  by (simp add: new_processor_def sample_defs initialize_base_converter_def Let_def)

lemma save_tables_ctor_log:
  "save_tables env out its w = (r, w1) \<Longrightarrow> ctor_log w1 = ctor_log w"
proof (induction its arbitrary: w r w1)
  case Nil
  then show ?case by simp
next
  case (Cons it its)
  obtain i t where it: "it = (i, t)" by (cases it)
  show ?case
  proof (cases "open_outcome env (table_file out i)")
    case (Some msg)
    with Cons.prems it show ?thesis by (simp add: Let_def)
  next
    case None
    show ?thesis
    proof (cases "json_dump_safe (py_str (repr env)) (as_pydict (table_record i t))")
      case (Inl e)
      with Cons.prems it None show ?thesis by (auto simp: Let_def)
    next
      case (Inr j)
      let ?w = "w\<lparr>files := (files w)(table_file out i \<mapsto> Json j)\<rparr>"
      obtain r' w' where sv: "save_tables env out its ?w = (r', w')"
        by (cases "save_tables env out its ?w")
      from Cons.prems it None Inr sv have "w1 = w'"
        by (auto simp: Let_def split: sum.splits)
      with Cons.IH[OF sv] show ?thesis by simp
    qed
  qed
qed

lemma extract_document_structure_ctor_log:
  "extract_document_structure env self doc file_path out w = (r, w1) \<Longrightarrow> ctor_log w1 = ctor_log w"
  unfolding extract_document_structure_def Let_def
  by (auto split: sum.splits prod.splits dest: save_tables_ctor_log)

text \<open>Once the flag is set, a call that asks for OCR never builds a handle, whatever
  handle the processor holds.\<close>

lemma set_flag_skips_rebuild:
  assumes "ocr_initialized self"
  shows "fst (snd (process_document env self w file_path output_dir True ocr_languages)) = self
       \<and> ctor_log (snd (snd (process_document env self w file_path output_dir True ocr_languages)))
           = ctor_log w"
  using assms unfolding process_document_def Let_def
  by (auto split: sum.splits prod.splits option.splits dest: extract_document_structure_ctor_log)

text \<open>A call without OCR on a processor whose flag is set builds the base handle and
  leaves the flag set.\<close>

lemma switch_back_leaves_flag:
  assumes "ocr_initialized self" and "path_exists env file_path"
    and "int (path_getsize env file_path) \<le> max_file_size_mb (config self) * 1024 * 1024"
    and "ctor_outcome env (base_pipeline_options (config self)) = None"
  shows "fst (snd (process_document env self w file_path output_dir False ocr_languages))
           = self\<lparr>converter := Some (base_pipeline_options (config self))\<rparr>"
  using assms unfolding process_document_def initialize_base_converter_def Let_def
  by (auto split: sum.splits prod.splits option.splits)

text \<open>
  Claim C1 states that whenever \<^verbatim>\<open>use_ocr\<close> toggles between two consecutive calls the handle
  is rebuilt exactly once, so that after each call the handle's mode equals that call's
  \<^verbatim>\<open>use_ocr\<close>. The code does not achieve this: \<^verbatim>\<open>_initialize_base_converter\<close> never resets
  \<^verbatim>\<open>ocr_initialized\<close>, so once OCR has been switched on and off again the flag still says
  that the OCR handle is in place. On a fresh processor, three successful calls with
  \<^verbatim>\<open>use_ocr\<close> = True, False, True build a handle twice only (OCR, then base); the third call
  rebuilds nothing, converts with the base handle and reports \<^verbatim>\<open>ocr_used = True\<close>.
\<close>

theorem second_switch_to_ocr_keeps_base_handle:
  "map isl (fst (process_documents sample_env sample_processor empty_world toggle_calls))
     = [False, False, False]
   \<and> converter (fst (snd (process_documents sample_env sample_processor empty_world toggle_calls)))
     = Some \<lparr>do_ocr = False, do_table_structure = True, generate_page_images = True\<rparr>
   \<and> map do_ocr (ctor_log (snd (snd (process_documents sample_env sample_processor empty_world toggle_calls))))
     = [True, False]
   \<and> map (do_ocr \<circ> snd) (convert_log (snd (snd (process_documents sample_env sample_processor empty_world toggle_calls))))
     = [True, False, False]
   \<and> map_of (processing_stats (projr (fst (process_documents sample_env sample_processor empty_world toggle_calls) ! 2)))
        ''ocr_used'' = Some (PBool True)"
  by (simp add: toggle_calls_def sample_defs run_defs)

text \<open>
  Claim C4 states that if construction of the OCR converter handle fails, the processor
  falls back by rebuilding the base (non-OCR) converter handle and then re-raises the
  initialization error to the caller of \<^verbatim>\<open>process_document\<close>. The fallback is itself a call
  of \<^verbatim>\<open>_initialize_base_converter\<close>, which logs and re-raises when its constructor fails.
  When both constructors raise, no handle is rebuilt (the processor is left as it was),
  the \<^verbatim>\<open>raise\<close> of the OCR handler is never reached, and the exception that reaches the
  caller is the base constructor's, not the OCR constructor's.
\<close>

theorem double_failure_counterexample:
  "ctor_outcome no_converter_env (ocr_pipeline_options (config sample_processor))
     = Some ''OCR engine missing''
   \<and> process_document no_converter_env sample_processor empty_world
        ''in/report.pdf'' ''out'' True ''eng''
       = (Inl (External ''base broken''),
          sample_processor,
          empty_world\<lparr>ctor_log := [\<lparr>do_ocr = True, do_table_structure = True, generate_page_images = True\<rparr>,
                                   \<lparr>do_ocr = False, do_table_structure = True, generate_page_images = True\<rparr>]\<rparr>)"
  by (simp add: no_converter_env_def sample_defs process_document_def initialize_ocr_converter_def
        initialize_base_converter_def ocr_pipeline_options_def base_pipeline_options_def Let_def)

text \<open>
  Claim C4, as amended. If construction of the OCR converter handle fails, the processor
  falls back by calling the base (non-OCR) converter constructor, and no conversion takes
  place. When that construction succeeds, the processor holds the rebuilt base handle,
  its \<^verbatim>\<open>ocr_initialized\<close> flag stays off, and the OCR initialization error is re-raised to the
  caller of \<^verbatim>\<open>process_document\<close>. When the base construction fails as well, its error is the
  one raised to the caller and the processor is left unchanged.
\<close>

theorem ocr_failure_falls_back_and_reraises:
  assumes "path_exists env file_path"
    and "int (path_getsize env file_path) \<le> max_file_size_mb (config self) * 1024 * 1024"
    and "\<not> ocr_initialized self"
    and "ctor_outcome env (ocr_pipeline_options (config self)) = Some msg"
  shows "process_document env self w file_path output_dir True ocr_languages =
           (Inl (External (case ctor_outcome env (base_pipeline_options (config self)) of
                             None \<Rightarrow> msg
                           | Some msg' \<Rightarrow> msg')),
            (case ctor_outcome env (base_pipeline_options (config self)) of
               None \<Rightarrow> self\<lparr>converter := Some (base_pipeline_options (config self))\<rparr>
             | Some msg' \<Rightarrow> self),
            w\<lparr>ctor_log := ctor_log w @ [ocr_pipeline_options (config self),
                                         base_pipeline_options (config self)]\<rparr>)"
  using assms
  by (simp add: process_document_def initialize_ocr_converter_def initialize_base_converter_def
        Let_def split: option.splits)

theorem ocr_failure_falls_back_and_reraises_witness:
  "path_exists no_ocr_env ''in/report.pdf''
   \<and> ctor_outcome no_ocr_env (ocr_pipeline_options (config sample_processor)) = Some ''OCR engine missing''
   \<and> process_document no_ocr_env sample_processor empty_world
        ''in/report.pdf'' ''out'' True ''eng''
       = (Inl (External ''OCR engine missing''),
          sample_processor,
          empty_world\<lparr>ctor_log := [\<lparr>do_ocr = True, do_table_structure = True, generate_page_images = True\<rparr>,
                                   \<lparr>do_ocr = False, do_table_structure = True, generate_page_images = True\<rparr>]\<rparr>)"
  using ocr_failure_falls_back_and_reraises
          [of no_ocr_env "''in/report.pdf''" sample_processor "''OCR engine missing''"
              empty_world "''out''" "''eng''"]
  by (simp add: no_ocr_env_def sample_defs ocr_pipeline_options_def base_pipeline_options_def)

section \<open>Side files of tables and images\<close>

text \<open>The names of the side files differ from table to table, so no table's file is
  overwritten by a later one.\<close>

lemma digit_char_inj: "d < 10 \<Longrightarrow> d' < 10 \<Longrightarrow> digit_char d = digit_char d' \<Longrightarrow> d = d'"
proof -
  assume a: "d < 10" "d' < 10" "digit_char d = digit_char d'"
  have "distinct ''0123456789''" by simp
  moreover have "length ''0123456789'' = 10" by simp
  ultimately show "d = d'"
    using a nth_eq_iff_index_eq[of "''0123456789''" d d'] unfolding digit_char_def by simp
qed

lemma string_of_nat_nonempty: "string_of_nat n \<noteq> []"
  by (subst string_of_nat.simps) simp

lemma string_of_nat_inj: "string_of_nat m = string_of_nat n \<Longrightarrow> m = n"
proof (induction m arbitrary: n rule: string_of_nat.induct)
  case (1 m)
  show ?case
  proof (cases "m < 10")
    case True
    then have m: "string_of_nat m = [digit_char m]" by (simp add: string_of_nat.simps)
    show ?thesis
    proof (cases "n < 10")
      case True
      then have "string_of_nat n = [digit_char n]" by (simp add: string_of_nat.simps)
      with m "1.prems" \<open>m < 10\<close> True show ?thesis by (auto dest: digit_char_inj)
    next
      case False
      then have "string_of_nat n = string_of_nat (n div 10) @ [digit_char (n mod 10)]"
        by (subst string_of_nat.simps) simp
      with m "1.prems" string_of_nat_nonempty[of "n div 10"] show ?thesis by simp
    qed
  next
    case False
    then have m: "string_of_nat m = string_of_nat (m div 10) @ [digit_char (m mod 10)]"
      by (subst string_of_nat.simps) simp
    show ?thesis
    proof (cases "n < 10")
      case True
      then have "string_of_nat n = [digit_char n]" by (simp add: string_of_nat.simps)
      with m "1.prems" string_of_nat_nonempty[of "m div 10"] show ?thesis by simp
    next
      case nf: False
      then have "string_of_nat n = string_of_nat (n div 10) @ [digit_char (n mod 10)]"
        by (subst string_of_nat.simps) simp
      with m "1.prems" have e: "string_of_nat (m div 10) = string_of_nat (n div 10)"
        and d: "digit_char (m mod 10) = digit_char (n mod 10)" by simp_all
      from "1.IH"[OF False e] have "m div 10 = n div 10" .
      moreover from d have "m mod 10 = n mod 10" by (auto dest!: digit_char_inj[rotated 2])
      ultimately show ?thesis by (metis div_mult_mod_eq)
    qed
  qed
qed

lemma table_file_inj: "table_file d i = table_file d k \<Longrightarrow> i = k"
  by (simp add: table_file_def path_join_def string_of_nat_inj)

lemma map_of_dict_set_same: "map_of (dict_set d k v) k = Some v"
  by (induction d) auto

lemma save_tables_frame:
  "save_tables env out its w = (r, w1) \<Longrightarrow> p \<notin> table_file out ` fst ` set its
   \<Longrightarrow> files w1 p = files w p"
proof (induction its arbitrary: w r w1)
  case Nil
  then show ?case by simp
next
  case (Cons it its)
  obtain i t where it: "it = (i, t)" by (cases it)
  from Cons.prems(2) it have ne: "p \<noteq> table_file out i" and rest: "p \<notin> table_file out ` fst ` set its"
    by auto
  show ?case
  proof (cases "open_outcome env (table_file out i)")
    case (Some msg)
    with Cons.prems(1) it show ?thesis by (simp add: Let_def)
  next
    case None
    show ?thesis
    proof (cases "json_dump_safe (py_str (repr env)) (as_pydict (table_record i t))")
      case (Inl e)
      with Cons.prems(1) it None ne show ?thesis by (auto simp: Let_def)
    next
      case (Inr j)
      let ?w = "w\<lparr>files := (files w)(table_file out i \<mapsto> Json j)\<rparr>"
      obtain r' w' where sv: "save_tables env out its ?w = (r', w')"
        by (cases "save_tables env out its ?w")
      from Cons.prems(1) it None Inr sv have "w1 = w'"
        by (auto simp: Let_def split: sum.splits)
      with Cons.IH[OF sv rest] ne show ?thesis by simp
    qed
  qed
qed

lemma save_tables_Inr:
  assumes "save_tables env out its w = (Inr tabs, w1)"
  shows "tabs = map (\<lambda>(i, t). dict_set (table_record i t) ''file_path'' (PStr (table_file out i))) its"
    and "distinct (map fst its) \<Longrightarrow> (i, t) \<in> set its
         \<Longrightarrow> \<exists>j. json_dump_safe (py_str (repr env)) (as_pydict (table_record i t)) = Inr j
                \<and> files w1 (table_file out i) = Some (Json j)"
  using assms
proof (induction its arbitrary: w tabs)
  case Nil
  { case 1 then show ?case by simp }
  { case 2 then show ?case by simp }
next
  case (Cons it its)
  obtain i0 t0 where it: "it = (i0, t0)" by (cases it)
  {
    case 1
    then show ?case using it Cons.IH(1)
      by (auto simp: Let_def split: option.splits sum.splits prod.splits)
  }
  {
    case 2
    from "2.prems"(3) it obtain j0 tds w'
      where j0: "json_dump_safe (py_str (repr env)) (as_pydict (table_record i0 t0)) = Inr j0"
        and sv: "save_tables env out its (w\<lparr>files := (files w)(table_file out i0 \<mapsto> Json j0)\<rparr>) = (Inr tds, w1)"
      by (auto simp: Let_def split: option.splits sum.splits prod.splits)
    from "2.prems"(1) it have d: "distinct (map fst its)" and notin: "i0 \<notin> fst ` set its"
      by auto
    show ?case
    proof (cases "(i, t) \<in> set its")
      case True
      from Cons.IH(2)[OF d True sv] show ?thesis .
    next
      case False
      with "2.prems"(2) it have eq: "i = i0" "t = t0" by auto
      have "table_file out i0 \<notin> table_file out ` fst ` set its"
        using notin by (auto dest: table_file_inj)
      from save_tables_frame[OF sv this] j0 eq show ?thesis by simp
    qed
  }
qed

lemma enumerate_nth_mem: "i < length xs \<Longrightarrow> (i, xs ! i) \<in> set (enumerate 0 xs)"
  by (simp add: in_set_enumerate_eq)

lemma map_of_image_record:
  "map_of (image_record out i img) ''file_path'' =
     (case i_data img of Some data \<Rightarrow> Some (PStr (image_file out i)) | None \<Rightarrow> None)"
  by (simp add: image_record_def Let_def split: option.splits)

text \<open>
  Claim C2 states that each table and each image of the converted document is serialized
  to a side file of its own in the output directory and that the corresponding entry of
  the returned structure references that file by path. This holds for tables, not for
  images: an image without a \<^verbatim>\<open>data\<close> attribute gets no \<^verbatim>\<open>file_path\<close> entry, and for an image
  with one the path is recorded but no file is written. On a document with two such
  images the call succeeds, entry 0 has no path, and entry 1 names a file that does not
  exist afterwards.
\<close>

theorem picture_files_counterexample:
  "fst (process_document (env_with_document picture_document) sample_processor empty_world
          ''in/report.pdf'' ''out'' False ''eng'')
     = Inr (projr (fst (process_document (env_with_document picture_document) sample_processor
                          empty_world ''in/report.pdf'' ''out'' False ''eng'')))
   \<and> length (images (projr (fst (process_document (env_with_document picture_document)
          sample_processor empty_world ''in/report.pdf'' ''out'' False ''eng'')))) = 2
   \<and> map_of (images (projr (fst (process_document (env_with_document picture_document)
          sample_processor empty_world ''in/report.pdf'' ''out'' False ''eng''))) ! 0) ''file_path'' = None
   \<and> map_of (images (projr (fst (process_document (env_with_document picture_document)
          sample_processor empty_world ''in/report.pdf'' ''out'' False ''eng''))) ! 1) ''file_path''
        = Some (PStr ''out/image_1.png'')
   \<and> files (snd (snd (process_document (env_with_document picture_document) sample_processor
          empty_world ''in/report.pdf'' ''out'' False ''eng''))) ''out/image_1.png'' = None"
proof -
  let ?run = "process_document (env_with_document picture_document) sample_processor empty_world
          ''in/report.pdf'' ''out'' False ''eng''"
  have "\<not> isl (fst ?run)"
    by (simp add: sample_defs2 run_defs)
  moreover have "length (images (projr (fst ?run))) = 2"
    by (simp add: sample_defs2 run_defs)
  moreover have "map_of (images (projr (fst ?run)) ! 0) ''file_path'' = None"
    by (simp add: sample_defs2 run_defs)
  moreover have "map_of (images (projr (fst ?run)) ! 1) ''file_path'' = Some (PStr ''out/image_1.png'')"
    by (simp add: sample_defs2 run_defs)
  moreover have "files (snd (snd ?run)) ''out/image_1.png'' = None"
    by (simp add: sample_defs2 run_defs)
  ultimately show ?thesis by simp
qed

text \<open>
  Claim C2, as amended. For every successful \<^verbatim>\<open>process_document\<close> call, each table of the
  converted document is serialized to the file \<^verbatim>\<open>table_<i>.json\<close> of the output directory
  (the file holds the JSON dump of the table's record) and entry \<open>i\<close> of \<^verbatim>\<open>tables\<close> is that
  record with \<^verbatim>\<open>file_path\<close> set to the file's path; entry \<open>i\<close> of \<^verbatim>\<open>images\<close> has \<^verbatim>\<open>file_path\<close>
  set to \<^verbatim>\<open>image_<i>.png\<close> in the output directory exactly when the image has a \<^verbatim>\<open>data\<close>
  attribute. Nothing is said about the image file itself.
\<close>

theorem side_files_of_tables_and_images:
  assumes "process_document env self w file_path output_dir use_ocr ocr_languages = (Inr ds, self1, w1)"
    and "converter self1 = Some c"
    and "convert_outcome env c file_path = Inr doc"
  shows "length (tables ds) = length (getattr (d_tables doc) [])
       \<and> (\<forall>i < length (tables ds).
             tables ds ! i = dict_set (table_record i (getattr (d_tables doc) [] ! i)) ''file_path''
                               (PStr (table_file output_dir i))
           \<and> map_of (tables ds ! i) ''file_path'' = Some (PStr (table_file output_dir i))
           \<and> (\<exists>j. json_dump_safe (py_str (repr env))
                       (as_pydict (table_record i (getattr (d_tables doc) [] ! i))) = Inr j
                  \<and> files w1 (table_file output_dir i) = Some (Json j)))
       \<and> length (images ds) = length (getattr (d_images doc) [])
       \<and> (\<forall>i < length (images ds).
             map_of (images ds ! i) ''file_path'' =
               (case i_data (getattr (d_images doc) [] ! i) of
                  Some data \<Rightarrow> Some (PStr (image_file output_dir i))
                | None \<Rightarrow> None))"
proof -
  let ?ts = "getattr (d_tables doc) []" and ?is = "getattr (d_images doc) []"
  from process_document_Inr[OF assms(1)] assms(2,3) obtain w0 ds0 stats
    where ex: "extract_document_structure env self1 doc file_path output_dir w0 = (Inr ds0, w1)"
      and ds: "ds = ds0\<lparr>processing_stats := stats\<rparr>"
    by auto
  from extract_document_structure_Inr[OF ex] ds
  have sv: "save_tables env output_dir (enumerate 0 ?ts) w0 = (Inr (tables ds), w1)"
    and im: "images ds = map (\<lambda>(i, img). image_record output_dir i img) (enumerate 0 ?is)"
    by auto
  from save_tables_Inr(1)[OF sv]
  have tb: "tables ds = map (\<lambda>(i, t). dict_set (table_record i t) ''file_path''
                                (PStr (table_file output_dir i))) (enumerate 0 ?ts)" .
  have len_t: "length (tables ds) = length ?ts" by (simp add: tb)
  have len_i: "length (images ds) = length ?is" by (simp add: im)
  have tabs: "tables ds ! i = dict_set (table_record i (?ts ! i)) ''file_path'' (PStr (table_file output_dir i))
           \<and> map_of (tables ds ! i) ''file_path'' = Some (PStr (table_file output_dir i))
           \<and> (\<exists>j. json_dump_safe (py_str (repr env)) (as_pydict (table_record i (?ts ! i))) = Inr j
                  \<and> files w1 (table_file output_dir i) = Some (Json j))"
    if "i < length (tables ds)" for i
  proof -
    from that len_t have i: "i < length ?ts" by simp
    then have nth: "tables ds ! i = dict_set (table_record i (?ts ! i)) ''file_path'' (PStr (table_file output_dir i))"
      by (simp add: tb nth_enumerate_eq)
    have "distinct (map fst (enumerate 0 ?ts))" by simp
    from save_tables_Inr(2)[OF sv this enumerate_nth_mem[OF i]] nth show ?thesis
      by (simp add: map_of_dict_set_same)
  qed
  have imgs: "map_of (images ds ! i) ''file_path'' =
               (case i_data (?is ! i) of Some data \<Rightarrow> Some (PStr (image_file output_dir i)) | None \<Rightarrow> None)"
    if "i < length (images ds)" for i
    using that len_i by (simp add: im nth_enumerate_eq map_of_image_record)
  from len_t len_i tabs imgs show ?thesis by blast
qed

theorem side_files_of_tables_and_images_witness:
  "length (tables (projr (fst (process_document (env_with_document picture_document) sample_processor
          empty_world ''in/report.pdf'' ''out'' False ''eng'')))) = 1
   \<and> map_of (tables (projr (fst (process_document (env_with_document picture_document)
          sample_processor empty_world ''in/report.pdf'' ''out'' False ''eng''))) ! 0) ''file_path''
        = Some (PStr ''out/table_0.json'')
   \<and> files (snd (snd (process_document (env_with_document picture_document) sample_processor
          empty_world ''in/report.pdf'' ''out'' False ''eng''))) ''out/table_0.json'' \<noteq> None
   \<and> map_of (images (projr (fst (process_document (env_with_document picture_document)
          sample_processor empty_world ''in/report.pdf'' ''out'' False ''eng''))) ! 1) ''file_path''
        = Some (PStr ''out/image_1.png'')"
proof -
  let ?run = "process_document (env_with_document picture_document) sample_processor empty_world
          ''in/report.pdf'' ''out'' False ''eng''"
  have "\<not> isl (fst ?run)"
    by (simp add: sample_defs2 run_defs)
  then have "fst ?run = Inr (projr (fst ?run))" by simp
  then have run: "?run = (Inr (projr (fst ?run)), fst (snd ?run), snd (snd ?run))"
    by (metis prod.collapse)
  have c: "converter (fst (snd ?run)) = Some (base_pipeline_options sample_config)"
    by (simp add: sample_defs2 run_defs)
  have d: "convert_outcome (env_with_document picture_document) (base_pipeline_options sample_config)
             ''in/report.pdf'' = Inr picture_document"
    by (simp add: sample_defs2)
  note th = side_files_of_tables_and_images[OF run c d]
  have lt: "length (tables (projr (fst ?run))) = 1"
    using th by (simp add: picture_document_def sample_document_def getattr_def)
  have li: "length (images (projr (fst ?run))) = 2"
    using th by (simp add: picture_document_def sample_document_def getattr_def)
  from th have all_t: "\<forall>i < length (tables (projr (fst ?run))).
             map_of (tables (projr (fst ?run)) ! i) ''file_path'' = Some (PStr (table_file ''out'' i))
           \<and> (\<exists>j. files (snd (snd ?run)) (table_file ''out'' i) = Some (Json j))"
    by blast
  from th have all_i: "\<forall>i < length (images (projr (fst ?run))).
             map_of (images (projr (fst ?run)) ! i) ''file_path'' =
               (case i_data (getattr (d_images picture_document) [] ! i) of
                  Some data \<Rightarrow> Some (PStr (image_file ''out'' i))
                | None \<Rightarrow> None)"
    by blast
  from all_t[rule_format, of 0] lt
  have t0: "map_of (tables (projr (fst ?run)) ! 0) ''file_path'' = Some (PStr (table_file ''out'' 0))"
    and f0: "\<exists>j. files (snd (snd ?run)) (table_file ''out'' 0) = Some (Json j)"
    by simp_all
  from all_i[rule_format, of 1] li
  have i1: "map_of (images (projr (fst ?run)) ! 1) ''file_path'' = Some (PStr (image_file ''out'' 1))"
    by (simp add: picture_document_def sample_document_def getattr_def)
  have tf: "table_file ''out'' 0 = ''out/table_0.json''" and "image_file ''out'' 1 = ''out/image_1.png''"
    by (simp_all add: run_defs)
  with lt t0 f0 i1 show ?thesis
    by auto
qed

section \<open>The size ceiling\<close>

text \<open>
  Claim C3. For every existing input file whose size in bytes exceeds
  \<^verbatim>\<open>max_file_size_mb * 1024 * 1024\<close>, \<^verbatim>\<open>process_document\<close> raises the size-exceeded
  ValueError, leaves the processor and the world as they were, and the conversion call is
  never made: the log of \<^verbatim>\<open>convert\<close> calls is unchanged.
\<close>

theorem size_ceiling_rejects_before_conversion:
  assumes "path_exists env file_path"
    and "int (path_getsize env file_path) > max_file_size_mb (config self) * 1024 * 1024"
  shows "process_document env self w file_path output_dir use_ocr ocr_languages =
           (Inl (ValueError (''File too large: '' @ string_of_nat (path_getsize env file_path)
                   @ '' bytes (max: ''
                   @ string_of_int (max_file_size_mb (config self) * 1024 * 1024) @ '')'')),
            self, w)
       \<and> convert_log (snd (snd (process_document env self w file_path output_dir use_ocr ocr_languages)))
           = convert_log w"
  using assms by (simp add: process_document_def Let_def)

theorem size_ceiling_rejects_before_conversion_witness:
  "path_exists (sample_env\<lparr>path_getsize := (\<lambda>p. 600 * 1024 * 1024)\<rparr>) ''in/report.pdf''
   \<and> fst (process_document (sample_env\<lparr>path_getsize := (\<lambda>p. 600 * 1024 * 1024)\<rparr>)
            sample_processor empty_world ''in/report.pdf'' ''out'' True ''eng'')
       = Inl (ValueError (''File too large: '' @ string_of_nat 629145600
                   @ '' bytes (max: '' @ string_of_int 524288000 @ '')''))
   \<and> convert_log (snd (snd (process_document (sample_env\<lparr>path_getsize := (\<lambda>p. 600 * 1024 * 1024)\<rparr>)
            sample_processor empty_world ''in/report.pdf'' ''out'' True ''eng''))) = []"
  using size_ceiling_rejects_before_conversion
          [of "sample_env\<lparr>path_getsize := (\<lambda>p. 600 * 1024 * 1024)\<rparr>" "''in/report.pdf''"
              sample_processor empty_world "''out''" True "''eng''"]
  by (simp add: sample_defs)

section \<open>The metadata of a returned structure\<close>

text \<open>
  Claim C5. For every successful \<^verbatim>\<open>process_document\<close> call, the returned structure
  satisfies \<^verbatim>\<open>metadata["content_length"] == len(raw_text)\<close>.
\<close>

theorem content_length_is_length_of_raw_text:
  assumes "fst (process_document env self w file_path output_dir use_ocr ocr_languages) = Inr ds"
  shows "map_of (metadata ds) ''content_length'' = Some (PInt (int (length (raw_text ds))))"
proof -
  from pair_of_fst[OF assms] obtain self1 w1
    where "process_document env self w file_path output_dir use_ocr ocr_languages = (Inr ds, self1, w1)"
    by blast
  from process_document_Inr[OF this] obtain doc w0 ds0 stats
    where ex: "extract_document_structure env self1 doc file_path output_dir w0 = (Inr ds0, w1)"
      and ds: "ds = ds0\<lparr>processing_stats := stats\<rparr>"
    by blast
  from extract_document_structure_Inr[OF ex] ds show ?thesis
    by auto
qed

theorem content_length_is_length_of_raw_text_witness:
  "fst (process_document sample_env sample_processor empty_world ''in/report.pdf'' ''out'' False ''eng'')
     = Inr (projr (fst (process_document sample_env sample_processor empty_world
                          ''in/report.pdf'' ''out'' False ''eng'')))
   \<and> raw_text (projr (fst (process_document sample_env sample_processor empty_world
                          ''in/report.pdf'' ''out'' False ''eng''))) = ''# Report''
   \<and> map_of (metadata (projr (fst (process_document sample_env sample_processor empty_world
                          ''in/report.pdf'' ''out'' False ''eng'')))) ''content_length''
       = Some (PInt 8)"
proof -
  let ?r = "fst (process_document sample_env sample_processor empty_world ''in/report.pdf'' ''out'' False ''eng'')"
  have ok: "?r = Inr (projr ?r)"
    using sample_run_ok by simp
  have rt: "raw_text (projr ?r) = ''# Report''"
    by (simp add: sample_defs run_defs)
  from content_length_is_length_of_raw_text[OF ok] ok rt show ?thesis
    by simp
qed

section \<open>The statistics block without OCR\<close>

text \<open>
  Claim C9. For every successful \<^verbatim>\<open>process_document\<close> call with \<^verbatim>\<open>use_ocr=False\<close>, the
  returned structure's \<^verbatim>\<open>processing_stats\<close> has \<^verbatim>\<open>ocr_used == False\<close> and
  \<^verbatim>\<open>ocr_languages == None\<close>, whatever \<^verbatim>\<open>ocr_languages\<close> the caller passed.
\<close>

theorem stats_without_ocr:
  assumes "fst (process_document env self w file_path output_dir False ocr_languages) = Inr ds"
  shows "map_of (processing_stats ds) ''ocr_used'' = Some (PBool False)
       \<and> map_of (processing_stats ds) ''ocr_languages'' = Some PNone"
proof -
  from pair_of_fst[OF assms] obtain self1 w1
    where "process_document env self w file_path output_dir False ocr_languages = (Inr ds, self1, w1)"
    by blast
  from process_document_Inr[OF this] show ?thesis
    by auto
qed

theorem stats_without_ocr_witness:
  "fst (process_document sample_env sample_processor empty_world ''in/report.pdf'' ''out'' False ''rus'')
     = Inr (projr (fst (process_document sample_env sample_processor empty_world
                          ''in/report.pdf'' ''out'' False ''rus'')))
   \<and> map_of (processing_stats (projr (fst (process_document sample_env sample_processor empty_world
                          ''in/report.pdf'' ''out'' False ''rus'')))) ''ocr_used'' = Some (PBool False)
   \<and> map_of (processing_stats (projr (fst (process_document sample_env sample_processor empty_world
                          ''in/report.pdf'' ''out'' False ''rus'')))) ''ocr_languages'' = Some PNone"
proof -
  let ?r = "fst (process_document sample_env sample_processor empty_world ''in/report.pdf'' ''out'' False ''rus'')"
  have "\<not> isl ?r"
    by (simp add: sample_defs run_defs)
  then have ok: "?r = Inr (projr ?r)"
    by simp
  from stats_without_ocr[OF ok] ok show ?thesis
    by simp
qed

section \<open>Markdown synthesized from the structure\<close>






section \<open>Cleaning the output directory\<close>

lemmas cleanup_defs =
  cleanup_temp_files_def keeps_def unlink_fails_def file_entry_def path_suffix_def path_name_def
  path_join_def path_parts_def is_absolute_def rfind_def Let_def

lemma unlink_loop_result:
  "unlink_loop d keep es =
     ((case dropWhile (\<lambda>e. keeps d keep e \<or> \<not> unlink_fails e) es of
         [] \<Rightarrow> None
       | e # rest \<Rightarrow> Some (OSError (e_name e))),
      filter (keeps d keep) (takeWhile (\<lambda>e. keeps d keep e \<or> \<not> unlink_fails e) es)
        @ dropWhile (\<lambda>e. keeps d keep e \<or> \<not> unlink_fails e) es)"
  by (induction es) (auto split: prod.splits)

text \<open>
  Claim C7 states that \<^verbatim>\<open>cleanup_temp_files\<close> with \<^verbatim>\<open>keep_main_files=True\<close> leaves every
  \<^verbatim>\<open>.md\<close> and \<^verbatim>\<open>.json\<close> file unchanged, removes every other file of the directory and never
  raises. Nothing is raised and the kept files stay, but the single \<^verbatim>\<open>try\<close> block encloses
  the whole loop: the first \<^verbatim>\<open>unlink\<close> that raises ends it. In a directory listed as
  \<^verbatim>\<open>report.md, cache.tmp, pages/, scratch.tmp, table_0.json\<close> the subdirectory stops the
  loop and \<^verbatim>\<open>scratch.tmp\<close> is still there afterwards.
\<close>

theorem subdirectory_stops_cleanup_counterexample:
  "raised (cleanup_temp_files mixed_dirs ''out'' True) = None
   \<and> warned (cleanup_temp_files mixed_dirs ''out'' True) = Some (OSError ''pages'')
   \<and> map_option (map e_name) (dirs_after (cleanup_temp_files mixed_dirs ''out'' True) ''out'')
       = Some [''report.md'', ''pages'', ''scratch.tmp'', ''table_0.json'']"
  by (simp add: mixed_dirs_def cleanup_defs)

text \<open>
  Claim C7, as amended. For every directory, \<^verbatim>\<open>cleanup_temp_files\<close> raises nothing to its
  caller (a failure is only logged) and, when the directory exists, leaves every entry
  it keeps (with \<^verbatim>\<open>keep_main_files=True\<close>: those with suffix \<^verbatim>\<open>.md\<close> or \<^verbatim>\<open>.json\<close>) unchanged; it
  removes the other entries in the order they are listed up to the first one whose
  removal fails, and leaves that entry and everything listed after it in place. When no
  removal fails, it removes every other file. A path that does not exist is left alone.
\<close>

theorem cleanup_keeps_main_files:
  "raised (cleanup_temp_files dirs d keep) = None
   \<and> (dirs d = None \<longrightarrow> dirs_after (cleanup_temp_files dirs d keep) = dirs)
   \<and> (\<forall>es. dirs d = Some es \<longrightarrow>
         dirs_after (cleanup_temp_files dirs d keep) =
           dirs(d \<mapsto> filter (keeps d keep) (takeWhile (\<lambda>e. keeps d keep e \<or> \<not> unlink_fails e) es)
                       @ dropWhile (\<lambda>e. keeps d keep e \<or> \<not> unlink_fails e) es)
       \<and> filter (keeps d keep) (the (dirs_after (cleanup_temp_files dirs d keep) d))
           = filter (keeps d keep) es
       \<and> (list_all (\<lambda>e. keeps d keep e \<or> \<not> unlink_fails e) es \<longrightarrow>
            dirs_after (cleanup_temp_files dirs d keep) = dirs(d \<mapsto> filter (keeps d keep) es)))"
proof -
  let ?ok = "\<lambda>e. keeps d keep e \<or> \<not> unlink_fails e"
  have r: "raised (cleanup_temp_files dirs d keep) = None"
    by (simp add: cleanup_temp_files_def split: option.splits prod.splits)
  have n: "dirs_after (cleanup_temp_files dirs d keep) = dirs" if "dirs d = None"
    using that by (simp add: cleanup_temp_files_def)
  have s: "dirs_after (cleanup_temp_files dirs d keep) =
             dirs(d \<mapsto> filter (keeps d keep) (takeWhile ?ok es) @ dropWhile ?ok es)"
    if "dirs d = Some es" for es
    using that by (simp add: cleanup_temp_files_def unlink_loop_result)
  have k: "filter (keeps d keep) (the (dirs_after (cleanup_temp_files dirs d keep) d))
             = filter (keeps d keep) es"
    if "dirs d = Some es" for es
  proof -
    have "filter (keeps d keep) (filter (keeps d keep) (takeWhile ?ok es) @ dropWhile ?ok es)
            = filter (keeps d keep) (takeWhile ?ok es) @ filter (keeps d keep) (dropWhile ?ok es)"
      by simp
    also have "\<dots> = filter (keeps d keep) (takeWhile ?ok es @ dropWhile ?ok es)"
      by (simp only: filter_append)
    also have "\<dots> = filter (keeps d keep) es"
      by (simp only: takeWhile_dropWhile_id)
    finally show ?thesis by (simp only: s[OF that] fun_upd_same option.sel)
  qed
  have a: "dirs_after (cleanup_temp_files dirs d keep) = dirs(d \<mapsto> filter (keeps d keep) es)"
    if "dirs d = Some es" "list_all ?ok es" for es
  proof -
    from that(2) have "takeWhile ?ok es = es" "dropWhile ?ok es = []"
      by (simp_all add: list_all_iff)
    with s[OF that(1)] show ?thesis by simp
  qed
  from r n s k a show ?thesis by blast
qed

theorem cleanup_keeps_main_files_witness:
  "plain_dirs ''out'' \<noteq> None
   \<and> raised (cleanup_temp_files plain_dirs ''out'' True) = None
   \<and> map_option (map e_name) (dirs_after (cleanup_temp_files plain_dirs ''out'' True) ''out'')
       = Some [''report.md'', ''table_0.json'']"
proof -
  let ?es = "[file_entry ''report.md'', file_entry ''cache.tmp'', file_entry ''image_0.png'',
        file_entry ''table_0.json'']"
  have d: "plain_dirs ''out'' = Some ?es"
    by (simp add: plain_dirs_def)
  have ok: "list_all (\<lambda>e. keeps ''out'' True e \<or> \<not> unlink_fails e) ?es"
    by (simp add: unlink_fails_def file_entry_def)
  have f: "filter (keeps ''out'' True) ?es = [file_entry ''report.md'', file_entry ''table_0.json'']"
    by (simp add: cleanup_defs)
  from cleanup_keeps_main_files[of plain_dirs "''out''" True] d ok
  have "raised (cleanup_temp_files plain_dirs ''out'' True) = None"
    and "dirs_after (cleanup_temp_files plain_dirs ''out'' True)
           = plain_dirs(''out'' \<mapsto> filter (keeps ''out'' True) ?es)"
    by blast+
  with d f show ?thesis
    by (simp add: file_entry_def)
qed

section \<open>Consistency of the metadata with the lists\<close>

text \<open>
  Claim C8 states that every returned structure has \<^verbatim>\<open>sections_count\<close>, \<^verbatim>\<open>tables_count\<close>
  and \<^verbatim>\<open>images_count\<close> equal to the lengths of its lists and \<^verbatim>\<open>total_pages >= 1\<close>. The
  last part fails: \<^verbatim>\<open>total_pages\<close> is \<^verbatim>\<open>len(docling_document.pages)\<close> whenever the document
  has that attribute, so a converted document with an empty \<^verbatim>\<open>pages\<close> collection yields 0.
\<close>

theorem total_pages_zero_counterexample:
  "fst (process_document (env_with_document pageless_document) sample_processor empty_world
          ''in/report.pdf'' ''out'' False ''eng'')
     = Inr (projr (fst (process_document (env_with_document pageless_document) sample_processor
                          empty_world ''in/report.pdf'' ''out'' False ''eng'')))
   \<and> map_of (metadata (projr (fst (process_document (env_with_document pageless_document)
                 sample_processor empty_world ''in/report.pdf'' ''out'' False ''eng''))))
        ''total_pages'' = Some (PInt 0)"
proof -
  let ?r = "fst (process_document (env_with_document pageless_document) sample_processor empty_world
          ''in/report.pdf'' ''out'' False ''eng'')"
  have "\<not> isl ?r"
    by (simp add: sample_defs2 run_defs)
  moreover have "map_of (metadata (projr ?r)) ''total_pages'' = Some (PInt 0)"
    by (simp add: sample_defs2 run_defs)
  ultimately show ?thesis by simp
qed

text \<open>
  Claim C8, as amended. For every successful \<^verbatim>\<open>process_document\<close> call, the three counts
  equal the lengths of the returned lists, and \<^verbatim>\<open>total_pages\<close> is the number of pages of
  the converted document when it has a \<^verbatim>\<open>pages\<close> attribute and 1 otherwise. The document
  is the one the processor's handle returned for the file.
\<close>

theorem metadata_counts:
  assumes "process_document env self w file_path output_dir use_ocr ocr_languages = (Inr ds, self1, w1)"
    and "converter self1 = Some c"
    and "convert_outcome env c file_path = Inr doc"
  shows "map_of (metadata ds) ''sections_count'' = Some (PInt (int (length (sections ds))))
       \<and> map_of (metadata ds) ''tables_count'' = Some (PInt (int (length (tables ds))))
       \<and> map_of (metadata ds) ''images_count'' = Some (PInt (int (length (images ds))))
       \<and> map_of (metadata ds) ''total_pages'' =
            Some (PInt (case d_pages doc of Some ps \<Rightarrow> int (length ps) | None \<Rightarrow> 1))"
proof -
  from process_document_Inr[OF assms(1)] assms(2,3) obtain w0 ds0 stats
    where ex: "extract_document_structure env self1 doc file_path output_dir w0 = (Inr ds0, w1)"
      and ds: "ds = ds0\<lparr>processing_stats := stats\<rparr>"
    by auto
  from extract_document_structure_Inr[OF ex] ds show ?thesis
    by auto
qed

theorem metadata_counts_witness:
  "map_of (metadata (projr (fst (process_document sample_env sample_processor empty_world
                          ''in/report.pdf'' ''out'' False ''eng'')))) ''sections_count'' = Some (PInt 1)
   \<and> map_of (metadata (projr (fst (process_document sample_env sample_processor empty_world
                          ''in/report.pdf'' ''out'' False ''eng'')))) ''tables_count'' = Some (PInt 1)
   \<and> map_of (metadata (projr (fst (process_document sample_env sample_processor empty_world
                          ''in/report.pdf'' ''out'' False ''eng'')))) ''images_count'' = Some (PInt 0)
   \<and> map_of (metadata (projr (fst (process_document sample_env sample_processor empty_world
                          ''in/report.pdf'' ''out'' False ''eng'')))) ''total_pages'' = Some (PInt 2)
   \<and> length (sections (projr (fst (process_document sample_env sample_processor empty_world
                          ''in/report.pdf'' ''out'' False ''eng'')))) = 1
   \<and> length (tables (projr (fst (process_document sample_env sample_processor empty_world
                          ''in/report.pdf'' ''out'' False ''eng'')))) = 1
   \<and> length (images (projr (fst (process_document sample_env sample_processor empty_world
                          ''in/report.pdf'' ''out'' False ''eng'')))) = 0"
proof -
  let ?run = "process_document sample_env sample_processor empty_world ''in/report.pdf'' ''out'' False ''eng''"
  have ok: "fst ?run = Inr (projr (fst ?run))"
    using sample_run_ok by simp
  then have run: "?run = (Inr (projr (fst ?run)), fst (snd ?run), snd (snd ?run))"
    by (metis prod.collapse)
  have c: "converter (fst (snd ?run)) = Some (base_pipeline_options sample_config)"
    by (simp add: sample_defs run_defs)
  have d: "convert_outcome sample_env (base_pipeline_options sample_config) ''in/report.pdf'' = Inr sample_document"
    by (simp add: sample_env_def)
  have l: "length (sections (projr (fst ?run))) = 1" "length (tables (projr (fst ?run))) = 1"
    "length (images (projr (fst ?run))) = 0"
    by (simp_all add: sample_defs run_defs)
  from metadata_counts[OF run c d] l show ?thesis
    by (simp add: sample_document_def)
qed

section \<open>Serializing table records\<close>




end
